theory Spec2Isabelle
  imports Main "HOL-Library.Word"
begin

section \<open>Data model of provider.go\<close>

text \<open>
  Go's \<^verbatim>\<open>int64\<close> and \<^verbatim>\<open>time.Duration\<close> (an \<^verbatim>\<open>int64\<close> of nanoseconds) are
  64-bit words. Strings are byte lists.
\<close>

type_synonym int64 = "64 word"

text \<open>
  \<^verbatim>\<open>libdns.RR\<close>, the struct of the imported library that provider.go builds and
  reads: \<^verbatim>\<open>RR{Name, TTL, Type, Data}\<close>.
\<close>

record RR =
  RR_Name :: string
  RR_TTL :: int64
  RR_Type :: string
  RR_Data :: string

text \<open>
  \<^verbatim>\<open>libdns.Record\<close> is an interface whose only method is \<^verbatim>\<open>RR() RR\<close>. A value of
  it is either a \<^verbatim>\<open>libdns.RR\<close> itself (\<open>Plain\<close>: the type assertion
  \<^verbatim>\<open>r.(libdns.RR)\<close> succeeds) or a value of another implementing type such as
  \<^verbatim>\<open>libdns.Address\<close> or \<^verbatim>\<open>libdns.TXT\<close> (\<open>Typed\<close>: the assertion fails), which
  is represented by what its \<^verbatim>\<open>RR()\<close> method returns. The nil interface value is
  not modelled.
\<close>

datatype libdns_Record = Plain RR | Typed RR

fun RR_of :: "libdns_Record \<Rightarrow> RR" where
  "RR_of (Plain rr) = rr"
| "RR_of (Typed rr) = rr"

text \<open>The struct \<^verbatim>\<open>record\<close> of provider.go, lines 19 to 25.\<close>

record dynv6_record =
  ID :: int64
  Name :: string
  Type :: string
  Data :: string
  TTL :: int64

text \<open>
  Modelled from the spec: the zone descriptor \<^verbatim>\<open>{ID, Name}\<close> that
  \<^verbatim>\<open>getZoneByName\<close> returns; its declaration is not in provider.go, which reads
  only \<^verbatim>\<open>zoneDetails.ID\<close>.
\<close>

record zone =
  zone_ID :: int64
  zone_Name :: string

text \<open>
  Errors. The client's calls fail with an error of the client's own, which provider.go
  hands on as it is; provider.go itself makes two errors with \<^verbatim>\<open>fmt.Errorf\<close>:
  "unsupported record type: %T" and "Record not found: %+v".
\<close>

datatype client_error = ZoneNotFound | TransportError

datatype error =
    ClientError client_error
  | UnsupportedRecordType
  | RecordNotFound libdns_Record

section \<open>The client, a parameter\<close>

text \<open>
  The methods \<^verbatim>\<open>getZoneByName\<close>, \<^verbatim>\<open>getRecords\<close>, \<^verbatim>\<open>addRecord\<close>,
  \<^verbatim>\<open>updateRecord\<close> and \<^verbatim>\<open>deleteRecord\<close> talk to the provider over HTTP and are
  not in provider.go. They are a parameter of the model: five functions over the
  provider's state \<open>'w\<close>, each returning its answer and the new state. In Go a call
  returns a pointer and an error; here it returns an error or a value, and the error is
  looked at first, as provider.go does (a nil pointer with a nil error, which
  \<^verbatim>\<open>result.toLibdnsRecord()\<close> would dereference, is left out). Every call is written
  to a trace with its arguments and its answer, so that a theorem can say which calls an
  operation issued.
\<close>

record 'w client =
  ResolveZone :: "string \<Rightarrow> 'w \<Rightarrow> (client_error + zone) \<times> 'w"
  ListRecords :: "int64 \<Rightarrow> 'w \<Rightarrow> (client_error + dynv6_record list) \<times> 'w"
  CreateRecord :: "int64 \<Rightarrow> dynv6_record \<Rightarrow> 'w \<Rightarrow> (client_error + dynv6_record) \<times> 'w"
  UpdateRecord :: "int64 \<Rightarrow> dynv6_record \<Rightarrow> 'w \<Rightarrow> (client_error + dynv6_record) \<times> 'w"
  DeleteRecord :: "int64 \<Rightarrow> int64 \<Rightarrow> 'w \<Rightarrow> client_error option \<times> 'w"

datatype event =
    GetZone string "client_error + zone"
  | ListRecs int64 "client_error + dynv6_record list"
  | Create int64 dynv6_record "client_error + dynv6_record"
  | Update int64 dynv6_record "client_error + dynv6_record"
  | Delete int64 int64 "client_error option"

record 'w remote =
  world :: 'w
  trace :: "event list"

definition getZoneByName ::
  "'w client \<Rightarrow> string \<Rightarrow> 'w remote \<Rightarrow> (client_error + zone) \<times> 'w remote" where
  "getZoneByName p name s =
     (case ResolveZone p name (world s) of
        (res, w) \<Rightarrow> (res, \<lparr>world = w, trace = trace s @ [GetZone name res]\<rparr>))"

definition getRecords ::
  "'w client \<Rightarrow> int64 \<Rightarrow> 'w remote \<Rightarrow> (client_error + dynv6_record list) \<times> 'w remote" where
  "getRecords p zid s =
     (case ListRecords p zid (world s) of
        (res, w) \<Rightarrow> (res, \<lparr>world = w, trace = trace s @ [ListRecs zid res]\<rparr>))"

definition addRecord ::
  "'w client \<Rightarrow> int64 \<Rightarrow> dynv6_record \<Rightarrow> 'w remote \<Rightarrow> (client_error + dynv6_record) \<times> 'w remote" where
  "addRecord p zid d s =
     (case CreateRecord p zid d (world s) of
        (res, w) \<Rightarrow> (res, \<lparr>world = w, trace = trace s @ [Create zid d res]\<rparr>))"

definition updateRecord ::
  "'w client \<Rightarrow> int64 \<Rightarrow> dynv6_record \<Rightarrow> 'w remote \<Rightarrow> (client_error + dynv6_record) \<times> 'w remote" where
  "updateRecord p zid d s =
     (case UpdateRecord p zid d (world s) of
        (res, w) \<Rightarrow> (res, \<lparr>world = w, trace = trace s @ [Update zid d res]\<rparr>))"

definition deleteRecord ::
  "'w client \<Rightarrow> int64 \<Rightarrow> int64 \<Rightarrow> 'w remote \<Rightarrow> client_error option \<times> 'w remote" where
  "deleteRecord p zid i s =
     (case DeleteRecord p zid i (world s) of
        (res, w) \<Rightarrow> (res, \<lparr>world = w, trace = trace s @ [Delete zid i res]\<rparr>))"

text \<open>
  Modelled from the spec: \<^verbatim>\<open>findRecord\<close> and \<^verbatim>\<open>findRecordWithValue\<close>, which
  provider.go calls and does not define. The spec: a linear scan over the existing
  records, equality by exact string comparison on Name and Type (for Delete also on
  Data), the first match returned, nil when there is none. The name, type and data of a
  requested record are those of its \<^verbatim>\<open>RR()\<close>.
\<close>

fun findRecord :: "dynv6_record list \<Rightarrow> libdns_Record \<Rightarrow> dynv6_record option" where
  "findRecord [] r = None"
| "findRecord (rec # records) r =
     (if Name rec = RR_Name (RR_of r) \<and> Type rec = RR_Type (RR_of r) then Some rec
      else findRecord records r)"

fun findRecordWithValue :: "dynv6_record list \<Rightarrow> libdns_Record \<Rightarrow> dynv6_record option" where
  "findRecordWithValue [] r = None"
| "findRecordWithValue (rec # records) r =
     (if Name rec = RR_Name (RR_of r) \<and> Type rec = RR_Type (RR_of r)
         \<and> Data rec = RR_Data (RR_of r) then Some rec
      else findRecordWithValue records r)"

section \<open>The functions of provider.go\<close>

text \<open>\<^verbatim>\<open>getDataFromRecord\<close>, lines 28 to 33.\<close>

fun getDataFromRecord :: "libdns_Record \<Rightarrow> string" where
  "getDataFromRecord (Plain rr) = RR_Data rr"
| "getDataFromRecord (Typed v) = ''''"

text \<open>\<^verbatim>\<open>toLibdnsRecord\<close>, lines 36 to 43.\<close>

definition toLibdnsRecord :: "dynv6_record \<Rightarrow> libdns_Record" where
  "toLibdnsRecord r =
     Plain \<lparr>RR_Name = Name r, RR_TTL = TTL r, RR_Type = Type r, RR_Data = Data r\<rparr>"

text \<open>
  \<^verbatim>\<open>fromLibdnsRecord\<close>, lines 46 to 56. The struct literal leaves \<^verbatim>\<open>ID\<close> at Go's
  zero value.
\<close>

fun fromLibdnsRecord :: "string \<Rightarrow> libdns_Record \<Rightarrow> error + dynv6_record" where
  "fromLibdnsRecord zone (Plain rr) =
     Inr \<lparr>ID = 0, Name = RR_Name rr, Type = RR_Type rr, Data = RR_Data rr, TTL = RR_TTL rr\<rparr>"
| "fromLibdnsRecord zone (Typed v) = Inl UnsupportedRecordType"

text \<open>
  A Go slice is nil (\<open>None\<close>) or holds elements; \<^verbatim>\<open>append\<close> to nil gives a slice
  of one element. \<^verbatim>\<open>[]libdns.Record{}\<close> is \<open>Some []\<close>.
\<close>

type_synonym 'a slice = "'a list option"

fun elems :: "'a slice \<Rightarrow> 'a list" where
  "elems None = []"
| "elems (Some xs) = xs"

fun append_slice :: "'a slice \<Rightarrow> 'a \<Rightarrow> 'a slice" where
  "append_slice None x = Some [x]"
| "append_slice (Some xs) x = Some (xs @ [x])"

text \<open>
  What the four entry points return: the pair \<^verbatim>\<open>([]libdns.Record, error)\<close>, a nil
  error being \<open>None\<close>, and the state of the provider after the calls.
\<close>

type_synonym 'w outcome = "(libdns_Record slice \<times> error option) \<times> 'w remote"

text \<open>\<^verbatim>\<open>GetRecords\<close>, lines 59 to 73; the loop of lines 69 to 71 first.\<close>

fun GetRecords_loop :: "dynv6_record list \<Rightarrow> libdns_Record slice \<Rightarrow> libdns_Record slice" where
  "GetRecords_loop [] recs = recs"
| "GetRecords_loop (r # dynv6Records) recs =
     GetRecords_loop dynv6Records (append_slice recs (toLibdnsRecord r))"

definition GetRecords :: "'w client \<Rightarrow> string \<Rightarrow> 'w remote \<Rightarrow> 'w outcome" where
  "GetRecords p zone s =
     (case getZoneByName p zone s of
        (Inl err, s1) \<Rightarrow> ((None, Some (ClientError err)), s1)
      | (Inr zoneDetails, s1) \<Rightarrow>
          (case getRecords p (zone_ID zoneDetails) s1 of
             (Inl err, s2) \<Rightarrow> ((None, Some (ClientError err)), s2)
           | (Inr dynv6Records, s2) \<Rightarrow> ((GetRecords_loop dynv6Records None, None), s2)))"



text \<open>
  \<^verbatim>\<open>SetRecords\<close>, lines 97 to 132; the loop of lines 107 to 130 first. The update
  is made on a copy of the record found (\<^verbatim>\<open>updateRecord := *existingRecord\<close>), so
  the list fetched before the loop stays as it was fetched.
\<close>

fun SetRecords_loop ::
  "'w client \<Rightarrow> string \<Rightarrow> int64 \<Rightarrow> dynv6_record list \<Rightarrow> libdns_Record list
     \<Rightarrow> libdns_Record list \<Rightarrow> 'w remote \<Rightarrow> 'w outcome" where
  "SetRecords_loop p zone zid existingRecords [] results s = ((Some results, None), s)"
| "SetRecords_loop p zone zid existingRecords (r # recs) results s =
     (case findRecord existingRecords r of
        Some existingRecord \<Rightarrow>
          (case updateRecord p zid (existingRecord\<lparr>Data := getDataFromRecord r\<rparr>) s of
             (Inl err, s') \<Rightarrow> ((Some results, Some (ClientError err)), s')
           | (Inr result, s') \<Rightarrow>
               SetRecords_loop p zone zid existingRecords recs
                 (results @ [toLibdnsRecord result]) s')
      | None \<Rightarrow>
          (case fromLibdnsRecord zone r of
             Inl err \<Rightarrow> ((Some results, Some err), s)
           | Inr newRecord \<Rightarrow>
               (case addRecord p zid newRecord s of
                  (Inl err, s') \<Rightarrow> ((Some results, Some (ClientError err)), s')
                | (Inr result, s') \<Rightarrow>
                    SetRecords_loop p zone zid existingRecords recs
                      (results @ [toLibdnsRecord result]) s')))"

definition SetRecords ::
  "'w client \<Rightarrow> string \<Rightarrow> libdns_Record list \<Rightarrow> 'w remote \<Rightarrow> 'w outcome" where
  "SetRecords p zone recs s =
     (case getZoneByName p zone s of
        (Inl err, s1) \<Rightarrow> ((None, Some (ClientError err)), s1)
      | (Inr zoneDetails, s1) \<Rightarrow>
          (case getRecords p (zone_ID zoneDetails) s1 of
             (Inl err, s2) \<Rightarrow> ((None, Some (ClientError err)), s2)
           | (Inr existingRecords, s2) \<Rightarrow>
               SetRecords_loop p zone (zone_ID zoneDetails) existingRecords recs [] s2))"

text \<open>\<^verbatim>\<open>DeleteRecords\<close>, lines 135 to 157; the loop of lines 145 to 155 first.\<close>

fun DeleteRecords_loop ::
  "'w client \<Rightarrow> int64 \<Rightarrow> dynv6_record list \<Rightarrow> libdns_Record list
     \<Rightarrow> libdns_Record list \<Rightarrow> 'w remote \<Rightarrow> 'w outcome" where
  "DeleteRecords_loop p zid existingRecords [] results s = ((Some results, None), s)"
| "DeleteRecords_loop p zid existingRecords (r # recs) results s =
     (case findRecordWithValue existingRecords r of
        None \<Rightarrow> ((Some results, Some (RecordNotFound r)), s)
      | Some existingRecord \<Rightarrow>
          (case deleteRecord p zid (ID existingRecord) s of
             (Some err, s') \<Rightarrow> ((Some results, Some (ClientError err)), s')
           | (None, s') \<Rightarrow> DeleteRecords_loop p zid existingRecords recs (results @ [r]) s'))"

definition DeleteRecords ::
  "'w client \<Rightarrow> string \<Rightarrow> libdns_Record list \<Rightarrow> 'w remote \<Rightarrow> 'w outcome" where
  "DeleteRecords p zone recs s =
     (case getZoneByName p zone s of
        (Inl err, s1) \<Rightarrow> ((None, Some (ClientError err)), s1)
      | (Inr zoneDetails, s1) \<Rightarrow>
          (case getRecords p (zone_ID zoneDetails) s1 of
             (Inl err, s2) \<Rightarrow> ((None, Some (ClientError err)), s2)
           | (Inr existingRecords, s2) \<Rightarrow>
               DeleteRecords_loop p (zone_ID zoneDetails) existingRecords recs [] s2))"

section \<open>A provider in memory\<close>

text \<open>
  Modelled from the spec: a provider that holds one zone in memory and answers the five
  calls as the collaborator contract of the spec says (create returns the record with an
  assigned ID, update wants a record that carries an existing ID, delete is by ID). The
  HTTP client and the service behind it are not in provider.go. The provider answers
  \<open>mem_budget\<close> more calls; after that the transport is down and every call fails.
  A call on another zone, an update or a delete of an ID the zone does not hold fails.
\<close>

record mem =
  mem_zone :: zone
  mem_records :: "dynv6_record list"
  mem_next :: int64
  mem_budget :: nat

definition spend :: "mem \<Rightarrow> mem" where
  "spend w = w\<lparr>mem_budget := mem_budget w - 1\<rparr>"

definition mem_resolve :: "string \<Rightarrow> mem \<Rightarrow> (client_error + zone) \<times> mem" where
  "mem_resolve name w =
     (if mem_budget w = 0 then (Inl TransportError, w)
      else if name = zone_Name (mem_zone w) then (Inr (mem_zone w), spend w)
      else (Inl ZoneNotFound, spend w))"

definition mem_list :: "int64 \<Rightarrow> mem \<Rightarrow> (client_error + dynv6_record list) \<times> mem" where
  "mem_list zid w =
     (if mem_budget w = 0 then (Inl TransportError, w)
      else if zid = zone_ID (mem_zone w) then (Inr (mem_records w), spend w)
      else (Inl TransportError, spend w))"

definition mem_create :: "int64 \<Rightarrow> dynv6_record \<Rightarrow> mem \<Rightarrow> (client_error + dynv6_record) \<times> mem" where
  "mem_create zid d w =
     (if mem_budget w = 0 then (Inl TransportError, w)
      else if zid = zone_ID (mem_zone w)
      then (Inr (d\<lparr>ID := mem_next w\<rparr>),
            spend (w\<lparr>mem_records := mem_records w @ [d\<lparr>ID := mem_next w\<rparr>],
                     mem_next := mem_next w + 1\<rparr>))
      else (Inl TransportError, spend w))"

definition mem_update :: "int64 \<Rightarrow> dynv6_record \<Rightarrow> mem \<Rightarrow> (client_error + dynv6_record) \<times> mem" where
  "mem_update zid d w =
     (if mem_budget w = 0 then (Inl TransportError, w)
      else if zid = zone_ID (mem_zone w) \<and> ID d \<in> set (map ID (mem_records w))
      then (Inr d,
            spend (w\<lparr>mem_records := map (\<lambda>x. if ID x = ID d then d else x) (mem_records w)\<rparr>))
      else (Inl TransportError, spend w))"

definition mem_delete :: "int64 \<Rightarrow> int64 \<Rightarrow> mem \<Rightarrow> client_error option \<times> mem" where
  "mem_delete zid i w =
     (if mem_budget w = 0 then (Some TransportError, w)
      else if zid = zone_ID (mem_zone w) \<and> i \<in> set (map ID (mem_records w))
      then (None, spend (w\<lparr>mem_records := filter (\<lambda>x. ID x \<noteq> i) (mem_records w)\<rparr>))
      else (Some TransportError, spend w))"

definition mem_client :: "mem client" where
  "mem_client =
     \<lparr>ResolveZone = mem_resolve, ListRecords = mem_list, CreateRecord = mem_create,
      UpdateRecord = mem_update, DeleteRecord = mem_delete\<rparr>"

subsection \<open>An example zone and requests\<close>

text \<open>
  The zone of the spec's example: \<^verbatim>\<open>{Name:"www", Type:"A", Data:"1.2.3.4"}\<close> under
  ID 1, and a second record. The zone answers \<open>budget\<close> calls.
\<close>

definition www :: dynv6_record where
  "www = \<lparr>ID = 1, Name = ''www'', Type = ''A'', Data = ''1.2.3.4'', TTL = 60\<rparr>"

definition mail :: dynv6_record where
  "mail = \<lparr>ID = 2, Name = ''mail'', Type = ''MX'', Data = ''10 mx'', TTL = 60\<rparr>"

definition example_zone :: "nat \<Rightarrow> mem remote" where
  "example_zone budget =
     \<lparr>world = \<lparr>mem_zone = \<lparr>zone_ID = 7, zone_Name = ''example.com''\<rparr>,
               mem_records = [www, mail], mem_next = 3, mem_budget = budget\<rparr>,
      trace = []\<rparr>"

definition mkRR :: "string \<Rightarrow> string \<Rightarrow> string \<Rightarrow> RR" where
  "mkRR name type data = \<lparr>RR_Name = name, RR_TTL = 300, RR_Type = type, RR_Data = data\<rparr>"

definition ghost :: libdns_Record where
  "ghost = Plain (mkRR ''ghost'' ''A'' ''9.9.9.9'')"



text \<open>Requests for the two records of the example zone, by name, type and data.\<close>

definition req_www :: libdns_Record where
  "req_www = Plain (mkRR ''www'' ''A'' ''1.2.3.4'')"

definition req_mail :: libdns_Record where
  "req_mail = Plain (mkRR ''mail'' ''MX'' ''10 mx'')"

text \<open>A request for Set: a record the example zone does not hold, then new data for
  \<open>www\<close>.\<close>

definition ftp_www :: "libdns_Record list" where
  "ftp_www = [Plain (mkRR ''ftp'' ''A'' ''9.9.9.9''), Plain (mkRR ''www'' ''A'' ''5.6.7.8'')]"


section \<open>Reading the trace\<close>

text \<open>
  The record a successful create or update call answered with, the answers of a list of
  calls in order, and the IDs of the successful delete calls.
\<close>

fun answer :: "event \<Rightarrow> dynv6_record option" where
  "answer (Create zid d (Inr a)) = Some a"
| "answer (Update zid d (Inr a)) = Some a"
| "answer ev = None"

fun answers :: "event list \<Rightarrow> dynv6_record list" where
  "answers [] = []"
| "answers (ev # evs) = (case answer ev of Some a \<Rightarrow> a # answers evs | None \<Rightarrow> answers evs)"

fun deletions :: "event list \<Rightarrow> int64 list" where
  "deletions [] = []"
| "deletions (Delete zid i None # evs) = i # deletions evs"
| "deletions (ev # evs) = deletions evs"

section \<open>Evaluation and the loops\<close>

lemmas client_defs = getZoneByName_def getRecords_def addRecord_def updateRecord_def
  deleteRecord_def

lemmas mem_defs = mem_client_def mem_resolve_def mem_list_def mem_create_def mem_update_def
  mem_delete_def spend_def example_zone_def www_def mail_def mkRR_def ghost_def

lemma elems_append_slice: "elems (append_slice acc x) = elems acc @ [x]"
  by (cases acc) simp_all

lemma append_slice_not_nil: "append_slice acc x \<noteq> None"
  by (cases acc) simp_all

lemma elems_GetRecords_loop:
  "elems (GetRecords_loop rs acc) = elems acc @ map toLibdnsRecord rs"
  by (induction rs arbitrary: acc) (simp_all add: elems_append_slice)

lemma GetRecords_loop_nil:
  "(GetRecords_loop rs acc = None) = (acc = None \<and> rs = [])"
  by (induction rs arbitrary: acc) (simp_all add: append_slice_not_nil)


lemma trace_addRecord:
  "addRecord p zid d s = (res, s1) \<Longrightarrow> trace s1 = trace s @ [Create zid d res]"
  by (auto simp: addRecord_def split: prod.splits)

lemma trace_updateRecord:
  "updateRecord p zid d s = (res, s1) \<Longrightarrow> trace s1 = trace s @ [Update zid d res]"
  by (auto simp: updateRecord_def split: prod.splits)

lemma trace_deleteRecord:
  "deleteRecord p zid i s = (res, s1) \<Longrightarrow> trace s1 = trace s @ [Delete zid i res]"
  by (auto simp: deleteRecord_def split: prod.splits)

lemma trace_getZoneByName:
  "getZoneByName p zone s = (res, s1) \<Longrightarrow> trace s1 = trace s @ [GetZone zone res]"
  by (auto simp: getZoneByName_def split: prod.splits)

lemma trace_getRecords:
  "getRecords p zid s = (res, s1) \<Longrightarrow> trace s1 = trace s @ [ListRecs zid res]"
  by (auto simp: getRecords_def split: prod.splits)


text \<open>
  A run of the loop of \<^verbatim>\<open>SetRecords\<close>: for each record of a prefix of the input a
  successful update of the record found, or a successful create when none is found, then
  at most one failed call.
\<close>

lemma SetRecords_loop_run:
  assumes "SetRecords_loop p zone zid existing recs results s = ((out, e), s')"
  shows "\<exists>evs fail. trace s' = trace s @ evs @ fail \<and> length evs \<le> length recs
      \<and> out = Some (results @ map toLibdnsRecord (answers evs))
      \<and> map answer evs = map Some (answers evs)
      \<and> list_all2 (\<lambda>r ev. case findRecord existing r of
             Some ex \<Rightarrow> \<exists>a. ev = Update zid (ex\<lparr>Data := getDataFromRecord r\<rparr>) (Inr a)
           | None \<Rightarrow> \<exists>d a. fromLibdnsRecord zone r = Inr d \<and> ev = Create zid d (Inr a))
           (take (length evs) recs) evs
      \<and> (case e of None \<Rightarrow> length evs = length recs \<and> fail = []
         | Some err \<Rightarrow> length evs < length recs \<and>
            (case findRecord existing (recs ! length evs) of
               Some ex \<Rightarrow> \<exists>ce. fail = [Update zid (ex\<lparr>Data := getDataFromRecord (recs ! length evs)\<rparr>) (Inl ce)]
                   \<and> err = ClientError ce
             | None \<Rightarrow>
                (fromLibdnsRecord zone (recs ! length evs) = Inl err \<and> fail = []) \<or>
                (\<exists>d ce. fromLibdnsRecord zone (recs ! length evs) = Inr d
                   \<and> fail = [Create zid d (Inl ce)] \<and> err = ClientError ce)))"
  (is "\<exists>evs fail. ?Q recs results s evs fail")
  using assms
proof (induction recs arbitrary: results s)
  case Nil
  then show ?case by auto
next
  case (Cons r recs)
  have step: "\<exists>evs fail. ?Q (r # recs) results s evs fail"
    if ok: "case findRecord existing r of
             Some ex \<Rightarrow> ev = Update zid (ex\<lparr>Data := getDataFromRecord r\<rparr>) (Inr a)
           | None \<Rightarrow> \<exists>d. fromLibdnsRecord zone r = Inr d \<and> ev = Create zid d (Inr a)"
      and tr: "trace s1 = trace s @ [ev]"
      and run: "SetRecords_loop p zone zid existing recs (results @ [toLibdnsRecord a]) s1
                  = ((out, e), s')"
    for ev a s1
  proof -
    from Cons.IH[OF run] obtain evs fail
      where IH: "?Q recs (results @ [toLibdnsRecord a]) s1 evs fail"
      by blast
    have an: "answer ev = Some a"
      using ok by (auto split: option.splits)
    show ?thesis
      apply (rule exI[of _ "ev # evs"], rule exI[of _ fail])
      using IH tr ok an by (auto split: option.splits)
  qed
  show ?case
  proof (cases "findRecord existing r")
    case (Some ex)
    obtain res s1 where up: "updateRecord p zid (ex\<lparr>Data := getDataFromRecord r\<rparr>) s = (res, s1)"
      by (cases "updateRecord p zid (ex\<lparr>Data := getDataFromRecord r\<rparr>) s")
    note tr = trace_updateRecord[OF up]
    show ?thesis
    proof (cases res)
      case (Inl ce)
      with Cons.prems Some up tr show ?thesis
        by (intro exI[of _ "[]"]
              exI[of _ "[Update zid (ex\<lparr>Data := getDataFromRecord r\<rparr>) (Inl ce)]"]) auto
    next
      case (Inr a)
      with Cons.prems Some up tr show ?thesis
        by (intro step[of _ a s1]) auto
    qed
  next
    case None
    show ?thesis
    proof (cases "fromLibdnsRecord zone r")
      case (Inl err)
      with Cons.prems None show ?thesis
        by (intro exI[of _ "[]"]) auto
    next
      case (Inr d)
      obtain res s1 where add: "addRecord p zid d s = (res, s1)"
        by (cases "addRecord p zid d s")
      note tr = trace_addRecord[OF add]
      show ?thesis
      proof (cases res)
        case (Inl ce)
        with Cons.prems None Inr add tr show ?thesis
          by (intro exI[of _ "[]"] exI[of _ "[Create zid d (Inl ce)]"]) auto
      next
        case a: (Inr a)
        with Cons.prems None Inr add tr show ?thesis
          by (intro step[of _ a s1]) auto
      qed
    qed
  qed
qed

text \<open>
  A run of the loop of \<^verbatim>\<open>DeleteRecords\<close>: a successful delete for each record of
  a prefix of the input, by the ID of the record found for it, then at most one failed
  delete; the result is that prefix.
\<close>

lemma DeleteRecords_loop_run:
  assumes "DeleteRecords_loop p zid existing recs results s = ((out, e), s')"
  shows "\<exists>evs fail. trace s' = trace s @ evs @ fail \<and> length evs \<le> length recs
      \<and> out = Some (results @ take (length evs) recs)
      \<and> length (deletions (evs @ fail)) = length evs
      \<and> list_all2 (\<lambda>r ev. \<exists>ex. findRecordWithValue existing r = Some ex \<and> ev = Delete zid (ID ex) None)
           (take (length evs) recs) evs
      \<and> (case e of None \<Rightarrow> length evs = length recs \<and> fail = []
         | Some err \<Rightarrow> length evs < length recs \<and>
            (case findRecordWithValue existing (recs ! length evs) of
               None \<Rightarrow> err = RecordNotFound (recs ! length evs) \<and> fail = []
             | Some ex \<Rightarrow> \<exists>ce. fail = [Delete zid (ID ex) (Some ce)] \<and> err = ClientError ce))"
  (is "\<exists>evs fail. ?Q recs results s evs fail")
  using assms
proof (induction recs arbitrary: results s)
  case Nil
  then show ?case by auto
next
  case (Cons r recs)
  show ?case
  proof (cases "findRecordWithValue existing r")
    case None
    with Cons.prems show ?thesis
      by (intro exI[of _ "[]"]) auto
  next
    case (Some ex)
    obtain res s1 where del: "deleteRecord p zid (ID ex) s = (res, s1)"
      by (cases "deleteRecord p zid (ID ex) s")
    note tr = trace_deleteRecord[OF del]
    show ?thesis
    proof (cases res)
      case ce: (Some ce)
      with Cons.prems Some del tr show ?thesis
        by (intro exI[of _ "[]"] exI[of _ "[Delete zid (ID ex) (Some ce)]"]) auto
    next
      case None
      with Cons.prems Some del
      have "DeleteRecords_loop p zid existing recs (results @ [r]) s1 = ((out, e), s')"
        by simp
      from Cons.IH[OF this] obtain evs fail where IH: "?Q recs (results @ [r]) s1 evs fail"
        by blast
      show ?thesis
        apply (rule exI[of _ "Delete zid (ID ex) None # evs"], rule exI[of _ fail])
        using IH tr Some None by (auto split: option.splits)
    qed
  qed
qed

lemma answers_nth:
  "map answer evs = map Some (answers evs) \<Longrightarrow> i < length evs \<Longrightarrow>
     answer (evs ! i) = Some (answers evs ! i) \<and> length (answers evs) = length evs"
  by (metis length_map nth_map)

lemmas req_defs = req_www_def req_mail_def

lemma findRecordWithValue_None_iff:
  "(findRecordWithValue xs r = None) =
     (\<forall>x\<in>set xs. \<not> (Name x = RR_Name (RR_of r) \<and> Type x = RR_Type (RR_of r)
        \<and> Data x = RR_Data (RR_of r)))"
  by (induction xs) auto

lemma findRecordWithValue_Some:
  "findRecordWithValue xs r = Some ex \<Longrightarrow>
     ex \<in> set xs \<and> Name ex = RR_Name (RR_of r) \<and> Type ex = RR_Type (RR_of r)
       \<and> Data ex = RR_Data (RR_of r)"
  by (induction xs) (auto split: if_splits)

lemma deletions_append: "deletions (xs @ ys) = deletions xs @ deletions ys"
  by (induction xs rule: deletions.induct) simp_all

lemma deletions_of_successes:
  "list_all2 (\<lambda>r ev. \<exists>ex. f r = Some ex \<and> ev = Delete zid (ID ex) None) rs evs \<Longrightarrow>
     list_all2 (\<lambda>r i. \<exists>ex. f r = Some ex \<and> i = ID ex) rs (deletions evs)"
  by (induction rule: list_all2_induct) auto

lemma DeleteRecords_loop_append:
  "DeleteRecords_loop p zid existing pre results s = ((Some res, None), s1) \<Longrightarrow>
     DeleteRecords_loop p zid existing (pre @ post) results s
       = DeleteRecords_loop p zid existing post res s1"
  by (induction pre arbitrary: results s) (auto split: option.splits prod.splits)

lemma DeleteRecords_loop_calls:
  assumes "DeleteRecords_loop p zid existing recs results s = ((out, e), s')"
  shows "\<exists>calls. trace s' = trace s @ calls
      \<and> out = Some (results @ take (length (deletions calls)) recs)
      \<and> list_all2 (\<lambda>r i. \<exists>ex. findRecordWithValue existing r = Some ex \<and> i = ID ex)
           (take (length (deletions calls)) recs) (deletions calls)
      \<and> (e = None \<longrightarrow> out = Some (results @ recs))"
proof -
  from DeleteRecords_loop_run[OF assms] obtain evs fail where
    tr: "trace s' = trace s @ evs @ fail" and out: "out = Some (results @ take (length evs) recs)"
    and len: "length (deletions (evs @ fail)) = length evs"
    and all: "list_all2 (\<lambda>r ev. \<exists>ex. findRecordWithValue existing r = Some ex \<and>
                ev = Delete zid (ID ex) None) (take (length evs) recs) evs"
    and c: "case e of None \<Rightarrow> length evs = length recs \<and> fail = []
         | Some err \<Rightarrow> length evs < length recs \<and>
            (case findRecordWithValue existing (recs ! length evs) of
               None \<Rightarrow> err = RecordNotFound (recs ! length evs) \<and> fail = []
             | Some ex \<Rightarrow> \<exists>ce. fail = [Delete zid (ID ex) (Some ce)] \<and> err = ClientError ce)"
    by blast
  have "fail = [] \<or> (\<exists>i ce. fail = [Delete zid i (Some ce)])"
    using c by (cases e) (auto split: option.splits)
  then have d: "deletions (evs @ fail) = deletions evs"
    by (auto simp: deletions_append)
  have "e = None \<longrightarrow> out = Some (results @ recs)"
    using c out by (cases e) auto
  with d len tr out deletions_of_successes[OF all] show ?thesis
    by (intro exI[of _ "evs @ fail"]) simp
qed


lemma findRecord_None_iff:
  "(findRecord xs r = None) =
     (\<forall>x\<in>set xs. \<not> (Name x = RR_Name (RR_of r) \<and> Type x = RR_Type (RR_of r)))"
  by (induction xs) auto


text \<open>
  The call that the loop of \<^verbatim>\<open>SetRecords\<close> issues for the record at index \<open>i\<close>,
  when the records before it were all processed (the result holds a record for each).
\<close>

lemma SetRecords_call_at:
  assumes loop: "SetRecords_loop p zone zid existing recs [] s2 = ((out, e), s')"
    and i: "i < length recs" "i \<le> length (elems out)"
  shows "\<exists>calls. trace s' = trace s2 @ calls \<and>
     (case findRecord existing (recs ! i) of
        Some ex \<Rightarrow> i < length calls \<and>
          ((\<exists>a. calls ! i = Update zid (ex\<lparr>Data := getDataFromRecord (recs ! i)\<rparr>) (Inr a) \<and>
               i < length (elems out) \<and> elems out ! i = toLibdnsRecord a) \<or>
           (\<exists>ce. calls ! i = Update zid (ex\<lparr>Data := getDataFromRecord (recs ! i)\<rparr>) (Inl ce) \<and>
               length (elems out) = i \<and> e = Some (ClientError ce)))
      | None \<Rightarrow>
          (case fromLibdnsRecord zone (recs ! i) of
             Inl err \<Rightarrow> length calls = i \<and> length (elems out) = i \<and> e = Some err
           | Inr d \<Rightarrow> i < length calls \<and>
               ((\<exists>a. calls ! i = Create zid d (Inr a) \<and>
                    i < length (elems out) \<and> elems out ! i = toLibdnsRecord a) \<or>
                (\<exists>ce. calls ! i = Create zid d (Inl ce) \<and>
                    length (elems out) = i \<and> e = Some (ClientError ce)))))"
proof -
  from SetRecords_loop_run[OF loop] obtain evs fail where
    tr: "trace s' = trace s2 @ evs @ fail"
    and out: "out = Some ([] @ map toLibdnsRecord (answers evs))"
    and an: "map answer evs = map Some (answers evs)"
    and all: "list_all2 (\<lambda>r ev. case findRecord existing r of
             Some ex \<Rightarrow> \<exists>a. ev = Update zid (ex\<lparr>Data := getDataFromRecord r\<rparr>) (Inr a)
           | None \<Rightarrow> \<exists>d a. fromLibdnsRecord zone r = Inr d \<and> ev = Create zid d (Inr a))
           (take (length evs) recs) evs"
    and c: "case e of None \<Rightarrow> length evs = length recs \<and> fail = []
         | Some err \<Rightarrow> length evs < length recs \<and>
            (case findRecord existing (recs ! length evs) of
               Some ex \<Rightarrow> \<exists>ce. fail = [Update zid (ex\<lparr>Data := getDataFromRecord (recs ! length evs)\<rparr>) (Inl ce)]
                   \<and> err = ClientError ce
             | None \<Rightarrow>
                (fromLibdnsRecord zone (recs ! length evs) = Inl err \<and> fail = []) \<or>
                (\<exists>d ce. fromLibdnsRecord zone (recs ! length evs) = Inr d
                   \<and> fail = [Create zid d (Inl ce)] \<and> err = ClientError ce))"
    by blast
  have len: "length (answers evs) = length evs"
    using an by (metis length_map)
  have el: "elems out = map toLibdnsRecord (answers evs)" "length (elems out) = length evs"
    using out len by simp_all
  show ?thesis
  proof (cases "i < length evs")
    case True
    have a: "answer (evs ! i) = Some (answers evs ! i)"
      using answers_nth[OF an True] by simp
    have "(evs @ fail) ! i = evs ! i"
      using True by (simp add: nth_append)
    moreover have "elems out ! i = toLibdnsRecord (answers evs ! i)"
      using True el len by simp
    ultimately show ?thesis
      using list_all2_nthD2[OF all True] True tr el a
      by (intro exI[of _ "evs @ fail"]) (auto split: option.splits sum.splits)
  next
    case False
    with i el have eq: "length evs = i" by simp
    with i c obtain err where e: "e = Some err" by (cases e) auto
    have "(evs @ fail) ! i = fail ! 0" "length (evs @ fail) = i + length fail"
      using eq by (simp_all add: nth_append)
    then show ?thesis
      using c e eq tr el
      by (intro exI[of _ "evs @ fail"]) (auto split: option.splits sum.splits)
  qed
qed

















section \<open>The translation between the two representations\<close>

text \<open>
  C5: a generic record that is not a \<^verbatim>\<open>libdns.RR\<close>, from which
  \<^verbatim>\<open>getDataFromRecord\<close> extracts no data, is refused by \<^verbatim>\<open>fromLibdnsRecord\<close>
  with the unsupported-record-type error, and only such a record is; a
  \<^verbatim>\<open>libdns.RR\<close> is translated, and the provider record has its Name, Type, Data and
  TTL.
\<close>

theorem fromLibdnsRecord_supported_only:
  "fromLibdnsRecord zone (Typed v) = Inl UnsupportedRecordType \<and>
   getDataFromRecord (Typed v) = '''' \<and>
   (\<exists>d. fromLibdnsRecord zone (Plain rr) = Inr d \<and> Name d = RR_Name rr \<and>
      Type d = RR_Type rr \<and> Data d = RR_Data rr \<and> TTL d = RR_TTL rr) \<and>
   ((\<exists>d. fromLibdnsRecord zone r = Inr d) = (\<exists>rr. r = Plain rr)) \<and>
   ((fromLibdnsRecord zone r = Inl UnsupportedRecordType) = (\<exists>v. r = Typed v))"
  by (cases r) simp_all

text \<open>
  C9: translating a \<^verbatim>\<open>libdns.RR\<close> to a provider record and back gives the same
  \<^verbatim>\<open>libdns.RR\<close>; \<^verbatim>\<open>toLibdnsRecord\<close> keeps Name, Type, Data and TTL of every
  provider record and does not depend on its ID, which is the only field lost: going to
  the generic record and back gives the provider record with the ID at zero.
\<close>

theorem translation_round_trip:
  "(\<exists>d. fromLibdnsRecord zone (Plain rr) = Inr d \<and> toLibdnsRecord d = Plain rr) \<and>
   RR_Name (RR_of (toLibdnsRecord d')) = Name d' \<and>
   RR_Type (RR_of (toLibdnsRecord d')) = Type d' \<and>
   RR_Data (RR_of (toLibdnsRecord d')) = Data d' \<and>
   RR_TTL (RR_of (toLibdnsRecord d')) = TTL d' \<and>
   toLibdnsRecord (d'\<lparr>ID := i\<rparr>) = toLibdnsRecord d' \<and>
   fromLibdnsRecord zone (toLibdnsRecord d') = Inr (d'\<lparr>ID := 0\<rparr>)"
  by (simp add: toLibdnsRecord_def)

section \<open>List\<close>

text \<open>
  C7: \<^verbatim>\<open>GetRecords\<close> resolves the zone and lists its records; when both calls succeed
  it returns, with no error, one generic record for each provider record, in the
  provider's order and with the same Name, Type, Data and TTL (a nil slice when the zone
  holds no record). When the zone is not resolved or the listing fails it returns the
  client's error and a nil slice.
\<close>

theorem GetRecords_lists_zone:
  "(getZoneByName p zone s = (Inl err, s1) \<longrightarrow>
      GetRecords p zone s = ((None, Some (ClientError err)), s1)) \<and>
   (getZoneByName p zone s = (Inr z, s1) \<and> getRecords p (zone_ID z) s1 = (Inl err, s2) \<longrightarrow>
      GetRecords p zone s = ((None, Some (ClientError err)), s2)) \<and>
   (getZoneByName p zone s = (Inr z, s1) \<and> getRecords p (zone_ID z) s1 = (Inr rs, s2) \<longrightarrow>
      (\<exists>out. GetRecords p zone s = ((out, None), s2) \<and>
         trace s2 = trace s @ [GetZone zone (Inr z), ListRecs (zone_ID z) (Inr rs)] \<and>
         elems out = map toLibdnsRecord rs \<and> length (elems out) = length rs \<and>
         ((out = None) = (rs = [])) \<and>
         (\<forall>i<length rs. RR_Name (RR_of (elems out ! i)) = Name (rs ! i) \<and>
            RR_Type (RR_of (elems out ! i)) = Type (rs ! i) \<and>
            RR_Data (RR_of (elems out ! i)) = Data (rs ! i) \<and>
            RR_TTL (RR_of (elems out ! i)) = TTL (rs ! i))))"
proof (intro conjI impI)
  assume "getZoneByName p zone s = (Inl err, s1)"
  then show "GetRecords p zone s = ((None, Some (ClientError err)), s1)"
    by (simp add: GetRecords_def)
next
  assume "getZoneByName p zone s = (Inr z, s1) \<and> getRecords p (zone_ID z) s1 = (Inl err, s2)"
  then show "GetRecords p zone s = ((None, Some (ClientError err)), s2)"
    by (simp add: GetRecords_def)
next
  assume a: "getZoneByName p zone s = (Inr z, s1) \<and> getRecords p (zone_ID z) s1 = (Inr rs, s2)"
  have run: "GetRecords p zone s = ((GetRecords_loop rs None, None), s2)"
    using a by (simp add: GetRecords_def)
  have tr: "trace s2 = trace s @ [GetZone zone (Inr z), ListRecs (zone_ID z) (Inr rs)]"
    using a by (auto simp: getZoneByName_def getRecords_def split: prod.splits)
  have el: "elems (GetRecords_loop rs None) = map toLibdnsRecord rs"
    by (simp add: elems_GetRecords_loop)
  show "\<exists>out. GetRecords p zone s = ((out, None), s2) \<and>
         trace s2 = trace s @ [GetZone zone (Inr z), ListRecs (zone_ID z) (Inr rs)] \<and>
         elems out = map toLibdnsRecord rs \<and> length (elems out) = length rs \<and>
         ((out = None) = (rs = [])) \<and>
         (\<forall>i<length rs. RR_Name (RR_of (elems out ! i)) = Name (rs ! i) \<and>
            RR_Type (RR_of (elems out ! i)) = Type (rs ! i) \<and>
            RR_Data (RR_of (elems out ! i)) = Data (rs ! i) \<and>
            RR_TTL (RR_of (elems out ! i)) = TTL (rs ! i))"
    using run tr el
    by (intro exI[of _ "GetRecords_loop rs None"]) (simp add: toLibdnsRecord_def GetRecords_loop_nil)
qed

theorem GetRecords_lists_zone_witness:
  "fst (GetRecords mem_client ''example.org'' (example_zone 5)) = (None, Some (ClientError ZoneNotFound)) \<and>
   fst (GetRecords mem_client ''example.com'' (example_zone 1)) = (None, Some (ClientError TransportError)) \<and>
   fst (GetRecords mem_client ''example.com'' (example_zone 5)) =
     (Some [Plain \<lparr>RR_Name = ''www'', RR_TTL = 60, RR_Type = ''A'', RR_Data = ''1.2.3.4''\<rparr>,
            Plain \<lparr>RR_Name = ''mail'', RR_TTL = 60, RR_Type = ''MX'', RR_Data = ''10 mx''\<rparr>], None)"
proof -
  let ?p = mem_client
  let ?z = "\<lparr>zone_ID = 7, zone_Name = ''example.com''\<rparr>"
  have a: "getZoneByName ?p ''example.org'' (example_zone 5)
      = (Inl ZoneNotFound, snd (getZoneByName ?p ''example.org'' (example_zone 5)))"
    by (simp add: client_defs mem_defs)
  have b1: "getZoneByName ?p ''example.com'' (example_zone 1)
      = (Inr ?z, snd (getZoneByName ?p ''example.com'' (example_zone 1)))"
    by (simp add: client_defs mem_defs)
  have b2: "getRecords ?p (zone_ID ?z) (snd (getZoneByName ?p ''example.com'' (example_zone 1)))
      = (Inl TransportError,
         snd (getRecords ?p (zone_ID ?z) (snd (getZoneByName ?p ''example.com'' (example_zone 1)))))"
    by (simp add: client_defs mem_defs)
  have c1: "getZoneByName ?p ''example.com'' (example_zone 5)
      = (Inr ?z, snd (getZoneByName ?p ''example.com'' (example_zone 5)))"
    by (simp add: client_defs mem_defs)
  have c2: "getRecords ?p (zone_ID ?z) (snd (getZoneByName ?p ''example.com'' (example_zone 5)))
      = (Inr [www, mail],
         snd (getRecords ?p (zone_ID ?z) (snd (getZoneByName ?p ''example.com'' (example_zone 5)))))"
    by (simp add: client_defs mem_defs)
  note thm1 = GetRecords_lists_zone[THEN conjunct1, THEN mp, OF a]
  note thm2 = GetRecords_lists_zone[THEN conjunct2, THEN conjunct1, THEN mp, OF conjI[OF b1 b2]]
  note thm3 = GetRecords_lists_zone[THEN conjunct2, THEN conjunct2, THEN mp, OF conjI[OF c1 c2]]
  from thm3 obtain out where
    o: "GetRecords ?p ''example.com'' (example_zone 5) = ((out, None),
         snd (getRecords ?p (zone_ID ?z) (snd (getZoneByName ?p ''example.com'' (example_zone 5)))))"
      "elems out = map toLibdnsRecord [www, mail]" "length (elems out) = length [www, mail]"
    by blast
  have "out = Some [toLibdnsRecord www, toLibdnsRecord mail]"
    using o(2) by (cases out) simp_all
  then show ?thesis
    using thm1 thm2 o(1) by (simp add: toLibdnsRecord_def www_def mail_def)
qed

section \<open>Append and Set: results on failure\<close>



section \<open>Delete\<close>

text \<open>
  C10: \<^verbatim>\<open>DeleteRecords\<close> returns requested records, not translations of provider
  records: the returned list is the prefix of the input list that is as long as the
  number of delete calls that succeeded, and the whole input list when no error is
  returned. After the listing, the IDs deleted are, in order, those of the records found
  for the records returned.
\<close>

theorem DeleteRecords_returns_requested_prefix:
  "(DeleteRecords p zone recs s = ((out, e), s') \<longrightarrow>
      (\<exists>calls. trace s' = trace s @ calls \<and>
         elems out = take (length (deletions calls)) recs \<and>
         (e = None \<longrightarrow> out = Some recs))) \<and>
   (getZoneByName p zone s = (Inr z, s1) \<and> getRecords p (zone_ID z) s1 = (Inr existing, s2) \<and>
    DeleteRecords p zone recs s = ((out, e), s') \<longrightarrow>
      (\<exists>calls. trace s' = trace s2 @ calls \<and>
         out = Some (take (length (deletions calls)) recs) \<and>
         list_all2 (\<lambda>r i. \<exists>ex. findRecordWithValue existing r = Some ex \<and> i = ID ex)
           (elems out) (deletions calls)))"
proof (intro conjI impI)
  assume run: "DeleteRecords p zone recs s = ((out, e), s')"
  obtain zres s1 where zone: "getZoneByName p zone s = (zres, s1)"
    by (cases "getZoneByName p zone s")
  note t1 = trace_getZoneByName[OF zone]
  show "\<exists>calls. trace s' = trace s @ calls \<and>
         elems out = take (length (deletions calls)) recs \<and> (e = None \<longrightarrow> out = Some recs)"
  proof (cases zres)
    case (Inl err)
    with run zone t1 show ?thesis
      by (intro exI[of _ "[GetZone zone zres]"]) (auto simp: DeleteRecords_def)
  next
    case z: (Inr z)
    obtain lres s2 where list: "getRecords p (zone_ID z) s1 = (lres, s2)"
      by (cases "getRecords p (zone_ID z) s1")
    note t2 = trace_getRecords[OF list]
    show ?thesis
    proof (cases lres)
      case (Inl err)
      with run zone z list t1 t2 show ?thesis
        by (intro exI[of _ "[GetZone zone zres, ListRecs (zone_ID z) lres]"])
           (auto simp: DeleteRecords_def)
    next
      case (Inr existing)
      with run zone z list
      have "DeleteRecords_loop p (zone_ID z) existing recs [] s2 = ((out, e), s')"
        by (auto simp: DeleteRecords_def)
      from DeleteRecords_loop_calls[OF this] obtain calls where
        r: "trace s' = trace s2 @ calls" "out = Some (take (length (deletions calls)) recs)"
           "e = None \<longrightarrow> out = Some recs"
        by auto
      show ?thesis
        using r t1 t2 z Inr
        by (intro exI[of _ "[GetZone zone zres, ListRecs (zone_ID z) lres] @ calls"])
           (auto simp: deletions_append)
    qed
  qed
next
  assume a: "getZoneByName p zone s = (Inr z, s1) \<and> getRecords p (zone_ID z) s1 = (Inr existing, s2) \<and>
    DeleteRecords p zone recs s = ((out, e), s')"
  then have "DeleteRecords_loop p (zone_ID z) existing recs [] s2 = ((out, e), s')"
    by (auto simp: DeleteRecords_def)
  from DeleteRecords_loop_calls[OF this]
  show "\<exists>calls. trace s' = trace s2 @ calls \<and>
         out = Some (take (length (deletions calls)) recs) \<and>
         list_all2 (\<lambda>r i. \<exists>ex. findRecordWithValue existing r = Some ex \<and> i = ID ex)
           (elems out) (deletions calls)"
    by auto
qed

theorem DeleteRecords_returns_requested_prefix_witness:
  "fst (DeleteRecords mem_client ''example.com'' [req_www, req_mail] (example_zone 5))
     = (Some [req_www, req_mail], None) \<and>
   fst (DeleteRecords mem_client ''example.com'' [req_www, req_mail, ghost] (example_zone 3))
     = (Some [req_www], Some (ClientError TransportError)) \<and>
   (\<exists>calls. trace (snd (DeleteRecords mem_client ''example.com'' [req_www, req_mail, ghost]
                 (example_zone 3))) = trace (example_zone 3) @ calls \<and>
      [req_www] = take (length (deletions calls)) [req_www, req_mail, ghost]) \<and>
   (\<exists>calls. trace (snd (DeleteRecords mem_client ''example.com'' [req_www, req_mail]
                 (example_zone 5)))
        = [GetZone ''example.com'' (Inr \<lparr>zone_ID = 7, zone_Name = ''example.com''\<rparr>),
           ListRecs 7 (Inr [www, mail])] @ calls \<and>
      list_all2 (\<lambda>r i. \<exists>ex. findRecordWithValue [www, mail] r = Some ex \<and> i = ID ex)
        [req_www, req_mail] (deletions calls))"
proof -
  let ?p = mem_client and ?zone = "''example.com''"
  let ?z = "\<lparr>zone_ID = 7, zone_Name = ''example.com''\<rparr>"
  let ?D3 = "DeleteRecords ?p ?zone [req_www, req_mail, ghost] (example_zone 3)"
  let ?D5 = "DeleteRecords ?p ?zone [req_www, req_mail] (example_zone 5)"
  let ?s1 = "snd (getZoneByName ?p ?zone (example_zone 5))"
  let ?s2 = "snd (getRecords ?p 7 ?s1)"
  have a: "?D3 = ((Some [req_www], Some (ClientError TransportError)), snd ?D3)"
    by (simp add: DeleteRecords_def client_defs mem_defs req_defs)
  have b: "getZoneByName ?p ?zone (example_zone 5) = (Inr ?z, ?s1) \<and>
      getRecords ?p (zone_ID ?z) ?s1 = (Inr [www, mail], ?s2) \<and>
      ?D5 = ((Some [req_www, req_mail], None), snd ?D5)"
    by (simp add: DeleteRecords_def client_defs mem_defs req_defs)
  have tr2: "trace ?s2 = [GetZone ''example.com'' (Inr ?z), ListRecs 7 (Inr [www, mail])]"
    by (simp add: client_defs mem_defs)
  note A = DeleteRecords_returns_requested_prefix[THEN conjunct1, THEN mp, OF a]
  note B = DeleteRecords_returns_requested_prefix[THEN conjunct2, THEN mp, OF b]
  have c1: "fst ?D5 = (Some [req_www, req_mail], None)"
    using b by (metis fst_conv)
  have c2: "fst ?D3 = (Some [req_www], Some (ClientError TransportError))"
    using a by (metis fst_conv)
  from A have c3: "\<exists>calls. trace (snd ?D3) = trace (example_zone 3) @ calls \<and>
      [req_www] = take (length (deletions calls)) [req_www, req_mail, ghost]"
    by auto
  from B have c4: "\<exists>calls. trace (snd ?D5)
        = [GetZone ''example.com'' (Inr ?z), ListRecs 7 (Inr [www, mail])] @ calls \<and>
      list_all2 (\<lambda>r i. \<exists>ex. findRecordWithValue [www, mail] r = Some ex \<and> i = ID ex)
        [req_www, req_mail] (deletions calls)"
    unfolding tr2 by auto
  show ?thesis
    by (intro conjI c1 c2 c3 c4)
qed

text \<open>
  C3, as amended: when the zone is resolved, the listing succeeds and the records before
  a requested record are all found and deleted (\<^verbatim>\<open>DeleteRecords\<close> on them alone
  returns no error), and no listed record has the name, type and data of that record,
  then \<^verbatim>\<open>DeleteRecords\<close> stops there: it returns exactly the records before it with
  the record-not-found error for it, whatever follows it in the input, and leaves the
  provider in the state in which the deletion of the earlier records left it. The calls
  after the listing are the successful deletes of the earlier records; with no earlier
  record the state is the one after the listing.
\<close>

theorem DeleteRecords_stops_at_unmatched:
  assumes zone: "getZoneByName p zone s = (Inr z, s1)"
    and list: "getRecords p (zone_ID z) s1 = (Inr existing, s2)"
    and pre: "DeleteRecords p zone pre s = ((out, None), s3)"
    and nomatch: "\<forall>x\<in>set existing. \<not> (Name x = RR_Name (RR_of r) \<and> Type x = RR_Type (RR_of r)
                    \<and> Data x = RR_Data (RR_of r))"
  shows "DeleteRecords p zone (pre @ r # post) s = ((Some pre, Some (RecordNotFound r)), s3) \<and>
     (\<exists>dels. trace s3 = trace s2 @ dels \<and> length dels = length pre \<and>
        (\<forall>i<length pre. \<exists>ex. findRecordWithValue existing (pre ! i) = Some ex \<and>
            dels ! i = Delete (zone_ID z) (ID ex) None)) \<and>
     (pre = [] \<longrightarrow> s3 = s2)"
proof -
  let ?zid = "zone_ID z"
  from zone list pre
  have loop: "DeleteRecords_loop p ?zid existing pre [] s2 = ((out, None), s3)"
    by (simp add: DeleteRecords_def)
  from DeleteRecords_loop_run[OF loop] obtain evs fail where
    tr: "trace s3 = trace s2 @ evs @ fail" and out: "out = Some ([] @ take (length evs) pre)"
    and all: "list_all2 (\<lambda>r ev. \<exists>ex. findRecordWithValue existing r = Some ex \<and>
                ev = Delete ?zid (ID ex) None) (take (length evs) pre) evs"
    and c: "case None of None \<Rightarrow> length evs = length pre \<and> fail = []
         | Some err \<Rightarrow> length evs < length pre \<and>
            (case findRecordWithValue existing (pre ! length evs) of
               None \<Rightarrow> err = RecordNotFound (pre ! length evs) \<and> fail = []
             | Some ex \<Rightarrow> \<exists>ce. fail = [Delete ?zid (ID ex) (Some ce)] \<and> err = ClientError ce)"
    by blast
  have r: "trace s3 = trace s2 @ evs" "out = Some pre" "length evs = length pre"
       "list_all2 (\<lambda>r ev. \<exists>ex. findRecordWithValue existing r = Some ex \<and> ev = Delete ?zid (ID ex) None)
           pre evs"
    using tr out all c by simp_all
  have none: "findRecordWithValue existing r = None"
    using nomatch by (simp add: findRecordWithValue_None_iff)
  have "DeleteRecords_loop p ?zid existing (pre @ r # post) [] s2
          = DeleteRecords_loop p ?zid existing (r # post) pre s3"
    using loop r(2) by (simp add: DeleteRecords_loop_append)
  then have "DeleteRecords p zone (pre @ r # post) s = ((Some pre, Some (RecordNotFound r)), s3)"
    using zone list none by (simp add: DeleteRecords_def)
  moreover have "\<forall>i<length pre. \<exists>ex. findRecordWithValue existing (pre ! i) = Some ex \<and>
            evs ! i = Delete ?zid (ID ex) None"
    using r(4) by (simp add: list_all2_conv_all_nth)
  moreover have "pre = [] \<longrightarrow> s3 = s2"
    using loop by auto
  ultimately show ?thesis
    using r(1,3) by blast
qed

theorem DeleteRecords_stops_at_unmatched_witness:
  "DeleteRecords mem_client ''example.com'' ([req_www] @ ghost # [req_mail]) (example_zone 5)
     = ((Some [req_www], Some (RecordNotFound ghost)),
        snd (DeleteRecords mem_client ''example.com'' [req_www] (example_zone 5))) \<and>
   mem_records (world (snd (DeleteRecords mem_client ''example.com'' [req_www] (example_zone 5))))
     = [mail] \<and>
   trace (snd (DeleteRecords mem_client ''example.com'' [req_www] (example_zone 5)))
     = [GetZone ''example.com'' (Inr \<lparr>zone_ID = 7, zone_Name = ''example.com''\<rparr>),
        ListRecs 7 (Inr [www, mail]), Delete 7 1 None]"
proof -
  let ?p = mem_client and ?zone = "''example.com''"
  let ?z = "\<lparr>zone_ID = 7, zone_Name = ''example.com''\<rparr>"
  let ?s1 = "snd (getZoneByName ?p ?zone (example_zone 5))"
  let ?s2 = "snd (getRecords ?p 7 ?s1)"
  let ?D = "DeleteRecords ?p ?zone [req_www] (example_zone 5)"
  have zone: "getZoneByName ?p ?zone (example_zone 5) = (Inr ?z, ?s1)"
    by (simp add: client_defs mem_defs)
  have list: "getRecords ?p (zone_ID ?z) ?s1 = (Inr [www, mail], ?s2)"
    by (simp add: client_defs mem_defs)
  have pre: "?D = ((Some [req_www], None), snd ?D)"
    by (simp add: DeleteRecords_def client_defs mem_defs req_defs)
  have nomatch: "\<forall>x\<in>set [www, mail]. \<not> (Name x = RR_Name (RR_of ghost) \<and>
      Type x = RR_Type (RR_of ghost) \<and> Data x = RR_Data (RR_of ghost))"
    by (simp add: mem_defs)
  have st: "mem_records (world (snd ?D)) = [mail]"
    "trace (snd ?D) = [GetZone ''example.com'' (Inr ?z), ListRecs 7 (Inr [www, mail]), Delete 7 1 None]"
    by (simp_all add: DeleteRecords_def client_defs mem_defs req_defs)
  from DeleteRecords_stops_at_unmatched[OF zone list pre nomatch, of "[req_mail]"] st
  show ?thesis by simp
qed

text \<open>
  The claim as stated fails. On the example zone, deleting the record \<open>www\<close> and then
  a record that does not exist returns the record-not-found error, and the zone has
  lost \<open>www\<close>: the failing call has changed it. And when the transport fails at the
  delete of the second of two existing records, the call stops there with the
  transport's error, before it reaches the record that has no match.
\<close>

theorem DeleteRecords_unmatched_counterexample:
  "fst (DeleteRecords mem_client ''example.com'' [req_www, ghost] (example_zone 5))
     = (Some [req_www], Some (RecordNotFound ghost)) \<and>
   mem_records (world (example_zone 5)) = [www, mail] \<and>
   mem_records (world (snd (DeleteRecords mem_client ''example.com'' [req_www, ghost]
     (example_zone 5)))) = [mail] \<and>
   findRecordWithValue [www, mail] ghost = None \<and>
   fst (DeleteRecords mem_client ''example.com'' [req_www, req_mail, ghost] (example_zone 3))
     = (Some [req_www], Some (ClientError TransportError))"
  by (simp add: DeleteRecords_def client_defs mem_defs req_defs)

section \<open>Set: update or create\<close>




text \<open>
  C2, as amended: let the zone be resolved and listed, and let the records before the
  one at index \<open>i\<close> have been processed. If that record is a \<^verbatim>\<open>libdns.RR\<close> and no
  listed record has its name and type, then the call that \<^verbatim>\<open>SetRecords\<close> issues for
  it is a create, not an update, of its translation (Name, Type, Data and TTL of the
  requested record, the ID at zero); when the create succeeds, the translation of the
  record the provider answered with stands at index \<open>i\<close> of the returned list, and when
  it fails the call ends there with the client's error.
\<close>

theorem SetRecords_creates_unmatched:
  assumes zone: "getZoneByName p zone s = (Inr z, s1)"
    and list: "getRecords p (zone_ID z) s1 = (Inr existing, s2)"
    and run: "SetRecords p zone recs s = ((out, e), s')"
    and i: "i < length recs" "i \<le> length (elems out)"
    and plain: "recs ! i = Plain rr"
    and nomatch: "\<forall>x\<in>set existing. \<not> (Name x = RR_Name rr \<and> Type x = RR_Type rr)"
  shows "\<exists>calls. trace s' = trace s2 @ calls \<and> i < length calls \<and>
      ((\<exists>a. calls ! i = Create (zone_ID z)
             \<lparr>ID = 0, Name = RR_Name rr, Type = RR_Type rr, Data = RR_Data rr, TTL = RR_TTL rr\<rparr>
             (Inr a) \<and>
           i < length (elems out) \<and> elems out ! i = toLibdnsRecord a) \<or>
       (\<exists>ce. calls ! i = Create (zone_ID z)
             \<lparr>ID = 0, Name = RR_Name rr, Type = RR_Type rr, Data = RR_Data rr, TTL = RR_TTL rr\<rparr>
             (Inl ce) \<and>
           length (elems out) = i \<and> e = Some (ClientError ce)))"
proof -
  from zone list run
  have loop: "SetRecords_loop p zone (zone_ID z) existing recs [] s2 = ((out, e), s')"
    by (simp add: SetRecords_def)
  have none: "findRecord existing (recs ! i) = None"
    using nomatch plain by (simp add: findRecord_None_iff)
  from SetRecords_call_at[OF loop i] none plain show ?thesis
    by auto
qed

theorem SetRecords_creates_unmatched_witness:
  "\<exists>calls a.
     trace (snd (SetRecords mem_client ''example.com'' ftp_www (example_zone 5)))
       = [GetZone ''example.com'' (Inr \<lparr>zone_ID = 7, zone_Name = ''example.com''\<rparr>),
          ListRecs 7 (Inr [www, mail])] @ calls \<and>
     0 < length calls \<and>
     calls ! 0 = Create 7 \<lparr>ID = 0, Name = ''ftp'', Type = ''A'', Data = ''9.9.9.9'', TTL = 300\<rparr>
       (Inr a) \<and>
     elems (fst (fst (SetRecords mem_client ''example.com'' ftp_www (example_zone 5)))) ! 0
       = toLibdnsRecord a"
proof -
  let ?p = mem_client and ?zone = "''example.com''"
  let ?z = "\<lparr>zone_ID = 7, zone_Name = ''example.com''\<rparr>"
  let ?s1 = "snd (getZoneByName ?p ?zone (example_zone 5))"
  let ?s2 = "snd (getRecords ?p 7 ?s1)"
  let ?S = "SetRecords ?p ?zone ftp_www (example_zone 5)"
  have zone: "getZoneByName ?p ?zone (example_zone 5) = (Inr ?z, ?s1)"
    by (simp add: client_defs mem_defs)
  have list: "getRecords ?p (zone_ID ?z) ?s1 = (Inr [www, mail], ?s2)"
    by (simp add: client_defs mem_defs)
  have run: "?S = ((fst (fst ?S), snd (fst ?S)), snd ?S)"
    by simp
  have i: "(0::nat) < length ftp_www" "(0::nat) \<le> length (elems (fst (fst ?S)))"
    by (simp_all add: ftp_www_def)
  have plain: "ftp_www ! 0 = Plain (mkRR ''ftp'' ''A'' ''9.9.9.9'')"
    by (simp add: ftp_www_def)
  have nomatch: "\<forall>x\<in>set [www, mail]. \<not> (Name x = RR_Name (mkRR ''ftp'' ''A'' ''9.9.9.9'') \<and>
      Type x = RR_Type (mkRR ''ftp'' ''A'' ''9.9.9.9''))"
    by (simp add: mem_defs)
  have tr2: "trace ?s2 = [GetZone ''example.com'' (Inr ?z), ListRecs 7 (Inr [www, mail])]"
    by (simp add: client_defs mem_defs)
  have ok: "snd (fst ?S) = None"
    by (simp add: SetRecords_def client_defs mem_defs ftp_www_def)
  from SetRecords_creates_unmatched[OF zone list run i plain nomatch] ok
  obtain calls a where
    "trace (snd ?S) = trace ?s2 @ calls" "0 < length calls"
    "calls ! 0 = Create (zone_ID ?z) \<lparr>ID = 0, Name = RR_Name (mkRR ''ftp'' ''A'' ''9.9.9.9''),
        Type = RR_Type (mkRR ''ftp'' ''A'' ''9.9.9.9''), Data = RR_Data (mkRR ''ftp'' ''A'' ''9.9.9.9''),
        TTL = RR_TTL (mkRR ''ftp'' ''A'' ''9.9.9.9'')\<rparr> (Inr a)"
    "elems (fst (fst ?S)) ! 0 = toLibdnsRecord a"
    by auto
  with tr2 show ?thesis
    by (intro exI[of _ calls] exI[of _ a]) (simp add: mem_defs)
qed

text \<open>
  The claim as stated fails for a requested record that is not a \<^verbatim>\<open>libdns.RR\<close>: no
  record of the zone matches it, and \<^verbatim>\<open>SetRecords\<close> returns the
  unsupported-record-type error without a create call.
\<close>

theorem SetRecords_create_counterexample:
  "findRecord [www, mail] (Typed (mkRR ''ftp'' ''A'' ''9.9.9.9'')) = None \<and>
   SetRecords mem_client ''example.com'' [Typed (mkRR ''ftp'' ''A'' ''9.9.9.9'')] (example_zone 5)
     = ((Some [], Some UnsupportedRecordType),
        \<lparr>world = \<lparr>mem_zone = \<lparr>zone_ID = 7, zone_Name = ''example.com''\<rparr>,
                  mem_records = [www, mail], mem_next = 3, mem_budget = 3\<rparr>,
         trace = [GetZone ''example.com'' (Inr \<lparr>zone_ID = 7, zone_Name = ''example.com''\<rparr>),
                  ListRecs 7 (Inr [www, mail])]\<rparr>)"
  by (simp add: SetRecords_def client_defs mem_defs)

text \<open>
  C8: on the update path of \<^verbatim>\<open>SetRecords\<close> the type check is not made. For a
  requested record that is not a \<^verbatim>\<open>libdns.RR\<close>, which \<^verbatim>\<open>fromLibdnsRecord\<close>
  refuses, and for which a listed record is found, the data extracted is the empty
  string and the call issued is an update of the record found with its Data set to the
  empty string; the call does not fail there with the unsupported-record-type error:
  either the update succeeds and its answer is appended to the result, or the client's
  error is returned.
\<close>

theorem SetRecords_update_skips_type_check:
  assumes zone: "getZoneByName p zone s = (Inr z, s1)"
    and list: "getRecords p (zone_ID z) s1 = (Inr existing, s2)"
    and run: "SetRecords p zone recs s = ((out, e), s')"
    and i: "i < length recs" "i \<le> length (elems out)"
    and typed: "recs ! i = Typed v"
    and match: "findRecord existing (recs ! i) = Some ex"
  shows "getDataFromRecord (recs ! i) = '''' \<and>
      fromLibdnsRecord zone (recs ! i) = Inl UnsupportedRecordType \<and>
      (\<exists>calls. trace s' = trace s2 @ calls \<and> i < length calls \<and>
         ((\<exists>a. calls ! i = Update (zone_ID z) (ex\<lparr>Data := ''''\<rparr>) (Inr a) \<and>
              i < length (elems out) \<and> elems out ! i = toLibdnsRecord a) \<or>
          (\<exists>ce. calls ! i = Update (zone_ID z) (ex\<lparr>Data := ''''\<rparr>) (Inl ce) \<and>
              length (elems out) = i \<and> e = Some (ClientError ce))))"
proof -
  from zone list run
  have loop: "SetRecords_loop p zone (zone_ID z) existing recs [] s2 = ((out, e), s')"
    by (simp add: SetRecords_def)
  from SetRecords_call_at[OF loop i] match typed show ?thesis
    by auto
qed

theorem SetRecords_update_skips_type_check_witness:
  "fst (SetRecords mem_client ''example.com'' [Typed (mkRR ''mail'' ''MX'' ''20 mx2'')] (example_zone 5))
     = (Some [Plain \<lparr>RR_Name = ''mail'', RR_TTL = 60, RR_Type = ''MX'', RR_Data = ''''\<rparr>], None) \<and>
   mem_records (world (snd (SetRecords mem_client ''example.com''
       [Typed (mkRR ''mail'' ''MX'' ''20 mx2'')] (example_zone 5))))
     = [www, mail\<lparr>Data := ''''\<rparr>] \<and>
   (\<exists>calls a.
     trace (snd (SetRecords mem_client ''example.com'' [Typed (mkRR ''mail'' ''MX'' ''20 mx2'')]
         (example_zone 5)))
       = [GetZone ''example.com'' (Inr \<lparr>zone_ID = 7, zone_Name = ''example.com''\<rparr>),
          ListRecs 7 (Inr [www, mail])] @ calls \<and>
     calls ! 0 = Update 7 (mail\<lparr>Data := ''''\<rparr>) (Inr a))"
proof -
  let ?p = mem_client and ?zone = "''example.com''"
  let ?z = "\<lparr>zone_ID = 7, zone_Name = ''example.com''\<rparr>"
  let ?s1 = "snd (getZoneByName ?p ?zone (example_zone 5))"
  let ?s2 = "snd (getRecords ?p 7 ?s1)"
  let ?recs = "[Typed (mkRR ''mail'' ''MX'' ''20 mx2'')]"
  let ?S = "SetRecords ?p ?zone ?recs (example_zone 5)"
  have zone: "getZoneByName ?p ?zone (example_zone 5) = (Inr ?z, ?s1)"
    by (simp add: client_defs mem_defs)
  have list: "getRecords ?p (zone_ID ?z) ?s1 = (Inr [www, mail], ?s2)"
    by (simp add: client_defs mem_defs)
  have run: "?S = ((fst (fst ?S), snd (fst ?S)), snd ?S)"
    by simp
  have i: "(0::nat) < length ?recs" "(0::nat) \<le> length (elems (fst (fst ?S)))"
    by simp_all
  have typed: "?recs ! 0 = Typed (mkRR ''mail'' ''MX'' ''20 mx2'')"
    by simp
  have match: "findRecord [www, mail] (?recs ! 0) = Some mail"
    by (simp add: mem_defs)
  have tr2: "trace ?s2 = [GetZone ''example.com'' (Inr ?z), ListRecs 7 (Inr [www, mail])]"
    by (simp add: client_defs mem_defs)
  have ev: "fst ?S
     = (Some [Plain \<lparr>RR_Name = ''mail'', RR_TTL = 60, RR_Type = ''MX'', RR_Data = ''''\<rparr>], None)"
    "mem_records (world (snd ?S)) = [www, mail\<lparr>Data := ''''\<rparr>]"
    by (simp_all add: SetRecords_def client_defs mem_defs toLibdnsRecord_def)
  from SetRecords_update_skips_type_check[OF zone list run i typed match] ev(1)
  obtain calls a where
    "trace (snd ?S) = trace ?s2 @ calls" "calls ! 0 = Update (zone_ID ?z) (mail\<lparr>Data := ''''\<rparr>) (Inr a)"
    by auto
  with tr2 have "\<exists>calls a. trace (snd ?S)
       = [GetZone ''example.com'' (Inr ?z), ListRecs 7 (Inr [www, mail])] @ calls \<and>
     calls ! 0 = Update 7 (mail\<lparr>Data := ''''\<rparr>) (Inr a)"
    by (intro exI[of _ calls] exI[of _ a]) simp
  with ev show ?thesis
    by (intro conjI)
qed

section \<open>Set twice\<close>




end
